theory Spec2Isabelle
  imports Complex_Main
begin

section \<open>Python and numpy values\<close>

text \<open>
  The exceptions the modelled functions can raise. \<open>ValueError\<close> and \<open>TypeError\<close> carry
  their message, \<open>NameError\<close> and \<open>UnboundLocalError\<close> the name that is not bound.
  In Python \<open>UnboundLocalError\<close> is a subclass of \<open>NameError\<close>.
\<close>

datatype error =
    TypeError string
  | ValueError string
  | RuntimeError string
  | AssertionError
  | NameError string
  | UnboundLocalError string
  | ZeroDivisionError
  | IndexError

fun is_NameError :: "error \<Rightarrow> bool" where
  "is_NameError (NameError n) = True"
| "is_NameError (UnboundLocalError n) = True"
| "is_NameError e = False"

text \<open>
  A numpy \<open>float64\<close>. Finite values are idealised as real numbers (no rounding, no
  overflow, no signed zero); the three special values are kept, because the code under
  study produces and tests for \<open>nan\<close>.
\<close>

datatype npfloat = Fin real | PosInf | NegInf | NaN

fun isnan :: "npfloat \<Rightarrow> bool" where
  "isnan NaN = True"
| "isnan v = False"

text \<open>\<open>a / b\<close> on finite operands: numpy warns and yields \<open>nan\<close> or an infinity when \<open>b = 0\<close>.\<close>

definition np_divide :: "real \<Rightarrow> real \<Rightarrow> npfloat" where
  "np_divide a b =
     (if b \<noteq> 0 then Fin (a / b)
      else if a = 0 then NaN
      else if 0 < a then PosInf else NegInf)"

text \<open>\<open>np.arccos\<close>: \<open>nan\<close> outside \<open>[-1, 1]\<close>, also at the infinities and at \<open>nan\<close>.\<close>

fun np_arccos :: "npfloat \<Rightarrow> npfloat" where
  "np_arccos (Fin v) = (if - 1 \<le> v \<and> v \<le> 1 then Fin (arccos v) else NaN)"
| "np_arccos v = NaN"

text \<open>\<open>np.arctan2(y, x)\<close> on finite operands: the quadrant-aware arc tangent.\<close>

definition np_arctan2 :: "real \<Rightarrow> real \<Rightarrow> real" where
  "np_arctan2 y x =
     (if 0 < x then arctan (y / x)
      else if x < 0 then (if 0 \<le> y then arctan (y / x) + pi else arctan (y / x) - pi)
      else if 0 < y then pi / 2
      else if y < 0 then - (pi / 2)
      else 0)"

text \<open>
  The one positional argument of the array call forms: a two-dimensional array, told
  apart by the length of its second axis, which is all the code looks at. An array whose
  second axis has another length, or with another number of dimensions, is never read.
\<close>

datatype 'a ndarray =
    Cols3 "('a \<times> 'a \<times> 'a) list"
  | Cols2 "('a \<times> 'a) list"
  | ColsOther
  | NotTwoDim

text \<open>
  The positional arguments \<open>*args\<close>: one array, two or three one-dimensional arrays, or
  any other number of arguments. What a call returns: an array, a tuple of three
  one-dimensional arrays, or \<open>None\<close> (a function that falls off its end).
\<close>

datatype 'a pyargs =
    Args1 "'a ndarray"
  | Args2 "'a list" "'a list"
  | Args3 "'a list" "'a list" "'a list"
  | ArgsN nat

datatype 'a pyresult =
    RArray "'a ndarray"
  | RTuple "'a list" "'a list" "'a list"
  | RNone

text \<open>
  An elementwise binary operation on one-dimensional arrays, with numpy's broadcasting:
  equal lengths, or one operand of length one that is repeated.
\<close>

definition elementwise :: "('a \<Rightarrow> 'b \<Rightarrow> 'c) \<Rightarrow> 'a list \<Rightarrow> 'b list \<Rightarrow> error + 'c list" where
  "elementwise f xs ys =
     (if length xs = length ys then Inr (map2 f xs ys)
      else if length xs = 1 then Inr (map (f (hd xs)) ys)
      else if length ys = 1 then Inr (map (\<lambda>x. f x (hd ys)) xs)
      else Inl (ValueError ''operands could not be broadcast together''))"

definition square :: "real \<Rightarrow> real" where
  "square x = x * x"

section \<open>Radial coordinate mapper\<close>

subsection \<open>Cartesian to spherical\<close>

text \<open>One row of the batch form: radius, the quotient passed to \<open>arccos\<close>, azimuth.\<close>

definition radius :: "real \<times> real \<times> real \<Rightarrow> real" where
  "radius p = (case p of (x, y, z) \<Rightarrow> sqrt (square x + square y + square z))"

definition elevation :: "real \<times> real \<times> real \<Rightarrow> npfloat" where
  "elevation p = (case p of (x, y, z) \<Rightarrow> np_arccos (np_divide z (radius p)))"

definition azimuth :: "real \<times> real \<times> real \<Rightarrow> real" where
  "azimuth p = (case p of (x, y, z) \<Rightarrow> np_arctan2 y x)"

text \<open>
  The componentwise form, shared by both files:
  \<^verbatim>\<open>
  X, Y, Z = args
  rho = np.sqrt(X**2 + Y**2 + Z**2)
  el = np.arccos(Z / rho)
  az = np.arctan2(Y, X)
  return rho, el, az
  \<close>
\<close>

definition c2s_xyz :: "real list \<Rightarrow> real list \<Rightarrow> real list \<Rightarrow> error + npfloat pyresult" where
  "c2s_xyz X Y Z =
     (case elementwise (+) (map square X) (map square Y) of
        Inl e \<Rightarrow> Inl e
      | Inr xy \<Rightarrow>
     (case elementwise (+) xy (map square Z) of
        Inl e \<Rightarrow> Inl e
      | Inr s \<Rightarrow>
     (let rho = map sqrt s in
      case elementwise np_divide Z rho of
        Inl e \<Rightarrow> Inl e
      | Inr q \<Rightarrow>
     (let el = map np_arccos q in
      case elementwise np_arctan2 Y X of
        Inl e \<Rightarrow> Inl e
      | Inr az \<Rightarrow> Inr (RTuple (map Fin rho) el (map Fin az))))))"

text \<open>
  \<open>c2s\<close> of \<open>virtue.py\<close>. The batch form fills the three columns and returns them as
  they are.
\<close>

definition c2s_virtue :: "real pyargs \<Rightarrow> error + npfloat pyresult" where
  "c2s_virtue args =
     (case args of
        Args1 C \<Rightarrow>
          (case C of
             Cols3 rws \<Rightarrow>
               Inr (RArray (Cols3 (map (\<lambda>p. (Fin (radius p), elevation p, Fin (azimuth p))) rws)))
           | _ \<Rightarrow> Inl AssertionError)
      | Args3 X Y Z \<Rightarrow> c2s_xyz X Y Z
      | _ \<Rightarrow> Inl (TypeError ''Supply either 1 or 3 inputs''))"

text \<open>
  \<open>c2s\<close> of \<open>lib/tractfinder/utils.py\<close> adds, in the batch form only, the replacement
  of \<open>nan\<close> elevations:
  \<^verbatim>\<open>
  if (np.isnan(S[:,1])).any():
      print(f" {np.sum(np.isnan(S[:,1]))} nan detected in S[:,1] ...")
      assert np.where(np.isnan(S[:,1])) == np.where(S[:,0]==0), "..."
      S[:,1][np.isnan(S[:,1])]=0.1
  \<close>
  \<open>np.where\<close> returns a one-element tuple holding the array of indices, so the assertion
  compares two tuples: Python compares the two index arrays with \<open>==\<close> and takes the
  truth value of the resulting boolean array. That truth value exists for an array of
  one element only; for more elements numpy raises \<open>ValueError\<close>, and so does \<open>==\<close> on
  lengths that do not broadcast. An empty boolean array counts as false.
\<close>

definition where_indices :: "('a \<Rightarrow> bool) \<Rightarrow> 'a list \<Rightarrow> nat list" where
  "where_indices P xs = filter (\<lambda>i. P (xs ! i)) [0..<length xs]"

definition where_tuples_equal :: "nat list \<Rightarrow> nat list \<Rightarrow> error + bool" where
  "where_tuples_equal a b =
     (case elementwise (=) a b of
        Inl e \<Rightarrow> Inl e
      | Inr bs \<Rightarrow>
          (if length bs = 1 then Inr (hd bs)
           else if bs = [] then Inr False
           else Inl (ValueError ''The truth value of an array with more than one element is ambiguous'')))"

text \<open>What the function printed: the number of \<open>nan\<close> it announced, once per message.\<close>

type_synonym stdout = "nat list"

definition substitute_nan :: "npfloat \<Rightarrow> npfloat" where
  "substitute_nan v = (if isnan v then Fin (1 / 10) else v)"

definition c2s_utils_batch :: "(real \<times> real \<times> real) list \<Rightarrow> stdout \<times> (error + npfloat pyresult)" where
  "c2s_utils_batch rws =
     (let S0 = map radius rws;
          S1 = map elevation rws;
          S2 = map azimuth rws
      in if list_ex isnan S1 then
           (case where_tuples_equal (where_indices isnan S1) (where_indices (\<lambda>r. r = 0) S0) of
              Inl e \<Rightarrow> ([length (filter isnan S1)], Inl e)
            | Inr ok \<Rightarrow>
                if ok then
                  ([length (filter isnan S1)],
                   Inr (RArray (Cols3 (zip (map Fin S0) (zip (map substitute_nan S1) (map Fin S2))))))
                else ([length (filter isnan S1)], Inl AssertionError))
         else ([], Inr (RArray (Cols3 (zip (map Fin S0) (zip S1 (map Fin S2)))))))"

definition c2s_utils :: "real pyargs \<Rightarrow> stdout \<times> (error + npfloat pyresult)" where
  "c2s_utils args =
     (case args of
        Args1 C \<Rightarrow>
          (case C of
             Cols3 rws \<Rightarrow> c2s_utils_batch rws
           | _ \<Rightarrow> ([], Inl AssertionError))
      | Args3 X Y Z \<Rightarrow> ([], c2s_xyz X Y Z)
      | _ \<Rightarrow> ([], Inl (TypeError ''Supply either 1 or 3 inputs'')))"

subsection \<open>Spherical to Cartesian\<close>

text \<open>
  \<open>np.sin\<close>, \<open>np.cos\<close> and the product of two floats round their results; which float
  comes out is decided by numpy and the hardware, not by this repository. The three
  operations are therefore parameters of \<open>s2c\<close>, over any type \<open>'f\<close> of floats. \<open>exact\<close> is
  the arithmetic that does not round, on the real numbers.
\<close>

record 'f ufuncs =
  np_sin :: "'f \<Rightarrow> 'f"
  np_cos :: "'f \<Rightarrow> 'f"
  np_multiply :: "'f \<Rightarrow> 'f \<Rightarrow> 'f"

definition exact :: "real ufuncs" where
  "exact = \<lparr>np_sin = sin, np_cos = cos, np_multiply = (*)\<rparr>"

text \<open>
  An arithmetic that rounds as float64 does at the elevation \<open>0.14\<close> and the azimuth \<open>0\<close>,
  all numbers written as the exact fractions the floats stand for: the float nearest
  to \<open>0.14\<close>, its sine \<open>0.1395431146442365\<close> and its cosine \<open>0.9902159962126371\<close> as float64
  computes them, \<open>sin 0 = 0\<close> and \<open>cos 0 = 1\<close>. The products that occur there, with \<open>1\<close> and
  with \<open>0\<close>, are exact in float64 too.
\<close>

definition float64_sample :: "real ufuncs" where
  "float64_sample =
     \<lparr>np_sin = (\<lambda>x. if x = 1261007895663739 / 9007199254740992
                     then 5027570552911215 / 36028797018963968
                     else if x = 0 then 0 else sin x),
      np_cos = (\<lambda>x. if x = 1261007895663739 / 9007199254740992
                     then 4459536391559537 / 4503599627370496
                     else if x = 0 then 1 else cos x),
      np_multiply = (*)\<rparr>"

text \<open>
  \<open>s2c\<close> has the same text in \<open>virtue.py\<close> and in \<open>lib/tractfinder/utils.py\<close>. A call
  with a number of arguments other than one, two or three matches no branch and
  returns \<open>None\<close>. \<open>R * np.sin(El) * np.cos(Az)\<close> multiplies from the left.
\<close>

definition s2c_row3 :: "'f ufuncs \<Rightarrow> 'f \<times> 'f \<times> 'f \<Rightarrow> 'f \<times> 'f \<times> 'f" where
  "s2c_row3 np s =
     (case s of (r, el, az) \<Rightarrow>
        (np_multiply np (np_multiply np r (np_sin np el)) (np_cos np az),
         np_multiply np (np_multiply np r (np_sin np el)) (np_sin np az),
         np_multiply np r (np_cos np el)))"

definition s2c_row2 :: "'f ufuncs \<Rightarrow> 'f \<times> 'f \<Rightarrow> 'f \<times> 'f \<times> 'f" where
  "s2c_row2 np s =
     (case s of (el, az) \<Rightarrow>
        (np_multiply np (np_sin np el) (np_cos np az),
         np_multiply np (np_sin np el) (np_sin np az),
         np_cos np el))"

definition s2c :: "'f ufuncs \<Rightarrow> 'f pyargs \<Rightarrow> error + 'f pyresult" where
  "s2c np args =
     (case args of
        Args1 S \<Rightarrow>
          (case S of
             NotTwoDim \<Rightarrow> Inl AssertionError
           | Cols3 rws \<Rightarrow> Inr (RArray (Cols3 (map (s2c_row3 np) rws)))
           | Cols2 rws \<Rightarrow> Inr (RArray (Cols3 (map (s2c_row2 np) rws)))
           | ColsOther \<Rightarrow>
               Inl (ValueError ''Second dimension must have length 2 (if only supplying angles) or 3''))
      | Args2 El Az \<Rightarrow>
          (case elementwise (np_multiply np) (map (np_sin np) El) (map (np_cos np) Az) of
             Inl e \<Rightarrow> Inl e
           | Inr X \<Rightarrow>
          (case elementwise (np_multiply np) (map (np_sin np) El) (map (np_sin np) Az) of
             Inl e \<Rightarrow> Inl e
           | Inr Y \<Rightarrow> Inr (RTuple X Y (map (np_cos np) El))))
      | Args3 R El Az \<Rightarrow>
          (case elementwise (np_multiply np) R (map (np_sin np) El) of
             Inl e \<Rightarrow> Inl e
           | Inr rs \<Rightarrow>
          (case elementwise (np_multiply np) rs (map (np_cos np) Az) of
             Inl e \<Rightarrow> Inl e
           | Inr X \<Rightarrow>
          (case elementwise (np_multiply np) rs (map (np_sin np) Az) of
             Inl e \<Rightarrow> Inl e
           | Inr Y \<Rightarrow>
          (case elementwise (np_multiply np) R (map (np_cos np) El) of
             Inl e \<Rightarrow> Inl e
           | Inr Z \<Rightarrow> Inr (RTuple X Y Z)))))
      | ArgsN n \<Rightarrow> Inr RNone)"

text \<open>
  The entry at index \<open>i\<close> of a one-dimensional array that broadcasting repeats when it
  has a single entry (a scalar is such an array), and the length two arrays are
  broadcast to.
\<close>

definition broadcast_nth :: "'a list \<Rightarrow> nat \<Rightarrow> 'a" where
  "broadcast_nth xs i = (if length xs = 1 then xs ! 0 else xs ! i)"

definition broadcast_length :: "'a list \<Rightarrow> 'b list \<Rightarrow> nat" where
  "broadcast_length xs ys = (if length xs = 1 then length ys else length xs)"

subsection \<open>Angle between two directions\<close>

text \<open>
  A global name in a function body is looked up in the module's namespace, then among
  the builtins; a name found in neither raises \<open>NameError\<close>. The two lists are the
  names bound at module level (by \<open>import\<close> and \<open>def\<close>) in each file. Python has no
  builtin called \<open>np\<close>, \<open>sin\<close> or \<open>cos\<close>, the only global names the two functions use, so
  the builtins add nothing here.
\<close>

definition virtue_globals :: "string list" where
  "virtue_globals =
     [''argparse'', ''sys'', ''os'', ''np'', ''nib'', ''skimage'', ''measure'', ''morphology'',
      ''gaussian'', ''load_mrtrix'', ''save_mrtrix'', ''plt'', ''Poly3DCollection'', ''pv'',
      ''c2s'', ''s2c'', ''grow'', ''ang'', ''decimate_surf'', ''surf_from_vol'', ''simplify_vol'',
      ''load_generic'', ''parse_args'', ''main'']"

definition utils_globals :: "string list" where
  "utils_globals = [''sys'', ''np'', ''app'', ''ANSI'', ''info'', ''ang'', ''c2s'', ''s2c'']"

definition load_global :: "string list \<Rightarrow> string \<Rightarrow> error + unit" where
  "load_global names n = (if n \<in> set names then Inr () else Inl (NameError n))"

text \<open>
  The floating-point operations of \<open>ang\<close>, again parameters: the three functions that
  \<open>utils.py\<close> calls with \<open>dtype=dtype\<close>, which selects the precision they compute in
  (\<open>None\<close>, the default, or a floating-point dtype of type \<open>'d\<close>), and the operators \<open>*\<close>,
  \<open>+\<close> and \<open>-\<close>. \<open>arccos_dtype\<close> returns whatever \<open>np.arccos\<close> returns, \<open>nan\<close> included.
\<close>

record ('f, 'd) dtype_ufuncs =
  sin_dtype :: "'d option \<Rightarrow> 'f \<Rightarrow> 'f"
  cos_dtype :: "'d option \<Rightarrow> 'f \<Rightarrow> 'f"
  arccos_dtype :: "'d option \<Rightarrow> 'f \<Rightarrow> 'f"
  op_multiply :: "'f \<Rightarrow> 'f \<Rightarrow> 'f"
  op_add :: "'f \<Rightarrow> 'f \<Rightarrow> 'f"
  op_subtract :: "'f \<Rightarrow> 'f \<Rightarrow> 'f"

text \<open>
  \<open>sin(polA)*sin(polB)*cos(azA-azB) + cos(polA)*cos(polB)\<close>, with the \<open>dtype\<close> handed to
  the three functions.
\<close>

definition ang_argument :: "('f, 'd) dtype_ufuncs \<Rightarrow> 'd option \<Rightarrow> 'f \<Rightarrow> 'f \<Rightarrow> 'f \<Rightarrow> 'f \<Rightarrow> 'f" where
  "ang_argument np dtype azA polA azB polB =
     op_add np
       (op_multiply np
          (op_multiply np (sin_dtype np dtype polA) (sin_dtype np dtype polB))
          (cos_dtype np dtype (op_subtract np azA azB)))
       (op_multiply np (cos_dtype np dtype polA) (cos_dtype np dtype polB))"

text \<open>
  \<open>virtue.py\<close>:
  \<^verbatim>\<open>
  def ang(azA, polA, azB, polB):
      return np.arccos( sin(polA)*sin(polB)*cos(azA-azB) + cos(polA)*cos(polB) )
  \<close>
  Python evaluates \<open>np.arccos\<close> first, then the argument from left to right, so the
  names are looked up in the order \<open>np\<close>, \<open>sin\<close>, \<open>cos\<close>. The last branch is what the
  expression would compute if \<open>sin\<close> and \<open>cos\<close> were bound to numpy's functions.
\<close>

definition ang_virtue :: "('f, 'd) dtype_ufuncs \<Rightarrow> 'f \<Rightarrow> 'f \<Rightarrow> 'f \<Rightarrow> 'f \<Rightarrow> error + 'f" where
  "ang_virtue np azA polA azB polB =
     (case load_global virtue_globals ''np'' of
        Inl e \<Rightarrow> Inl e
      | Inr _ \<Rightarrow>
     (case load_global virtue_globals ''sin'' of
        Inl e \<Rightarrow> Inl e
      | Inr _ \<Rightarrow>
     (case load_global virtue_globals ''cos'' of
        Inl e \<Rightarrow> Inl e
      | Inr _ \<Rightarrow> Inr (arccos_dtype np None (ang_argument np None azA polA azB polB)))))"

text \<open>
  \<open>lib/tractfinder/utils.py\<close>:
  \<^verbatim>\<open>
  def ang(azA, polA, azB, polB, dtype=None):
    return np.arccos( np.sin(polA, dtype=dtype)*np.sin(polB, dtype=dtype)*np.cos(azA-azB, dtype=dtype)
                    + np.cos(polA, dtype=dtype)*np.cos(polB, dtype=dtype), dtype=dtype )
  \<close>
\<close>

definition ang_utils ::
  "('f, 'd) dtype_ufuncs \<Rightarrow> 'f \<Rightarrow> 'f \<Rightarrow> 'f \<Rightarrow> 'f \<Rightarrow> 'd option \<Rightarrow> error + 'f" where
  "ang_utils np azA polA azB polB dtype =
     (case load_global utils_globals ''np'' of
        Inl e \<Rightarrow> Inl e
      | Inr _ \<Rightarrow> Inr (arccos_dtype np dtype (ang_argument np dtype azA polA azB polB)))"

section \<open>Volumes and regions\<close>

text \<open>
  A three-dimensional array: its shape and its entries. Only the entries at indices
  inside the shape belong to the array. \<open>indices\<close> lists them in raster (C) order.
\<close>

type_synonym voxel = "nat \<times> nat \<times> nat"

record 'a volume =
  shape :: voxel
  data :: "voxel \<Rightarrow> 'a"

definition indices :: "voxel \<Rightarrow> voxel list" where
  "indices s = (case s of (n0, n1, n2) \<Rightarrow> List.product [0..<n0] (List.product [0..<n1] [0..<n2]))"

definition foreground :: "bool volume \<Rightarrow> voxel list" where
  "foreground vol = filter (data vol) (indices (shape vol))"

text \<open>
  \<open>skimage.measure.regionprops(ll)\<close> is library code; this is its documented behaviour
  on a label image. It returns one region for every label \<open>1, 2, \<dots>\<close> that occurs in
  \<open>ll\<close>, in increasing order of the label; label \<open>0\<close> is the background. A region knows
  its label and the coordinates of its voxels; its properties are computed from them
  when they are read: \<open>area\<close> is the number of voxels, \<open>centroid\<close> the mean coordinate,
  \<open>bbox\<close> the half-open box \<open>(min_0, min_1, min_2, max_0 + 1, max_1 + 1, max_2 + 1)\<close>,
  \<open>image\<close> the region cut out on its bounding box, and \<open>convex_image\<close> the convex hull
  image of \<open>image\<close>, of the same shape.
\<close>

record region =
  rlabel :: nat
  coords :: "voxel list"

definition coords_of :: "nat volume \<Rightarrow> nat \<Rightarrow> voxel list" where
  "coords_of ll l = filter (\<lambda>p. data ll p = l) (indices (shape ll))"

definition max_label :: "nat volume \<Rightarrow> nat" where
  "max_label ll = fold max (map (data ll) (indices (shape ll))) 0"

definition regionprops :: "nat volume \<Rightarrow> region list" where
  "regionprops ll =
     map (\<lambda>l. \<lparr>rlabel = l, coords = coords_of ll l\<rparr>)
       (filter (\<lambda>l. coords_of ll l \<noteq> []) [1..<Suc (max_label ll)])"

definition area :: "region \<Rightarrow> nat" where
  "area r = length (coords r)"

definition mean :: "nat list \<Rightarrow> real" where
  "mean xs = real (sum_list xs) / real (length xs)"

definition centroid :: "region \<Rightarrow> real \<times> real \<times> real" where
  "centroid r =
     (mean (map (\<lambda>p. fst p) (coords r)),
      mean (map (\<lambda>p. fst (snd p)) (coords r)),
      mean (map (\<lambda>p. snd (snd p)) (coords r)))"

definition bbox_min :: "region \<Rightarrow> voxel" where
  "bbox_min r =
     (Min (set (map (\<lambda>p. fst p) (coords r))),
      Min (set (map (\<lambda>p. fst (snd p)) (coords r))),
      Min (set (map (\<lambda>p. snd (snd p)) (coords r))))"

definition bbox_max :: "region \<Rightarrow> voxel" where
  "bbox_max r =
     (Suc (Max (set (map (\<lambda>p. fst p) (coords r)))),
      Suc (Max (set (map (\<lambda>p. fst (snd p)) (coords r)))),
      Suc (Max (set (map (\<lambda>p. snd (snd p)) (coords r)))))"

definition voxel_add :: "voxel \<Rightarrow> voxel \<Rightarrow> voxel" where
  "voxel_add p q = (fst p + fst q, fst (snd p) + fst (snd q), snd (snd p) + snd (snd q))"

definition voxel_sub :: "voxel \<Rightarrow> voxel \<Rightarrow> voxel" where
  "voxel_sub p q = (fst p - fst q, fst (snd p) - fst (snd q), snd (snd p) - snd (snd q))"

definition in_box :: "voxel \<Rightarrow> voxel \<Rightarrow> voxel \<Rightarrow> bool" where
  "in_box lo hi p \<longleftrightarrow>
     fst lo \<le> fst p \<and> fst p < fst hi
     \<and> fst (snd lo) \<le> fst (snd p) \<and> fst (snd p) < fst (snd hi)
     \<and> snd (snd lo) \<le> snd (snd p) \<and> snd (snd p) < snd (snd hi)"

definition region_image :: "region \<Rightarrow> bool volume" where
  "region_image r =
     \<lparr>shape = voxel_sub (bbox_max r) (bbox_min r),
      data = (\<lambda>p. voxel_add p (bbox_min r) \<in> set (coords r))\<rparr>"

definition convex_image :: "(bool volume \<Rightarrow> bool volume) \<Rightarrow> region \<Rightarrow> bool volume" where
  "convex_image convex_hull_image r = convex_hull_image (region_image r)"

text \<open>
  \<open>np.argmax\<close> of a list of numbers: the index of the first greatest entry; numpy raises
  \<open>ValueError\<close> on an empty sequence.
\<close>

fun argmax_from :: "nat \<Rightarrow> nat \<Rightarrow> nat \<Rightarrow> nat list \<Rightarrow> nat" where
  "argmax_from best v i [] = best"
| "argmax_from best v i (x # xs) =
     (if v < x then argmax_from i x (Suc i) xs else argmax_from best v (Suc i) xs)"

fun argmax :: "nat list \<Rightarrow> error + nat" where
  "argmax [] = Inl (ValueError ''attempt to get argmax of an empty sequence'')"
| "argmax (x # xs) = Inr (argmax_from 0 x 1 xs)"

text \<open>\<open>ll == n\<close>: the boolean array of the entries equal to \<open>n\<close>.\<close>

definition equals_label :: "nat volume \<Rightarrow> nat \<Rightarrow> bool volume" where
  "equals_label ll n = \<lparr>shape = shape ll, data = (\<lambda>p. data ll p = n)\<rparr>"

text \<open>
  \<open>out[lo_0:hi_0, lo_1:hi_1, lo_2:hi_2] = img\<close>: the entries of \<open>out\<close> inside the box are
  replaced by those of \<open>img\<close>, whose shape has to be the shape of the box (numpy would
  also repeat an axis of length one, which is left out here).
\<close>

definition assign_box :: "'a volume \<Rightarrow> voxel \<Rightarrow> voxel \<Rightarrow> 'a volume \<Rightarrow> error + 'a volume" where
  "assign_box out lo hi img =
     (if shape img = voxel_sub hi lo then
        Inr (out\<lparr>data := (\<lambda>p. if in_box lo hi p then data img (voxel_sub p lo) else data out p)\<rparr>)
      else Inl (ValueError ''could not broadcast input array''))"

section \<open>Mask simplifier\<close>

text \<open>
  \<open>simplify_vol(vol, convex_hull=True, largest_object=True)\<close> of \<open>virtue.py\<close>. The
  connected-component labelling \<open>measure.label\<close> and the convex hull image behind
  \<open>convex_image\<close> are scikit-image's and are parameters of the model. The local
  variable \<open>out\<close> is assigned under \<open>if largest_object\<close> only, so it is optional here:
  reading it while it is unbound raises \<open>UnboundLocalError\<close>.
\<close>

definition simplify_vol ::
  "(bool volume \<Rightarrow> nat volume) \<Rightarrow> (bool volume \<Rightarrow> bool volume) \<Rightarrow> bool volume \<Rightarrow> bool \<Rightarrow> bool
   \<Rightarrow> error + (bool volume \<times> (real \<times> real \<times> real))" where
  "simplify_vol label convex_hull_image vol convex_hull largest_object =
     (if \<not> (convex_hull \<or> largest_object) then
        Inl (ValueError ''At least one of convex_hull and largest_object options must be true'')
      else
        let ll = label vol;
            cc = regionprops ll
        in case argmax (map area cc) of
             Inl e \<Rightarrow> Inl e
           | Inr i \<Rightarrow>
               let xyz = centroid (cc ! i);
                   out = (if largest_object then Some (equals_label ll (1 + i)) else None)
               in if convex_hull then
                    (case out of
                       None \<Rightarrow> Inl (UnboundLocalError ''out'')
                     | Some out0 \<Rightarrow>
                         (case assign_box out0 (bbox_min (cc ! i)) (bbox_max (cc ! i))
                                 (convex_image convex_hull_image (cc ! i)) of
                            Inl e \<Rightarrow> Inl e
                          | Inr out1 \<Rightarrow> Inr (out1, xyz)))
                  else
                    (case out of
                       None \<Rightarrow> Inl (UnboundLocalError ''out'')
                     | Some out0 \<Rightarrow> Inr (out0, xyz)))"





section \<open>Surface extractor\<close>

text \<open>
  A triangle mesh: vertices and faces, a face being three vertex indices. The Gaussian
  filter, \<open>measure.marching_cubes\<close> and pyvista's \<open>decimate\<close> are library code and are
  parameters of the model; the two that can raise return a sum.
\<close>

record mesh =
  points :: "(real \<times> real \<times> real) list"
  faces :: "(nat \<times> nat \<times> nat) list"

definition n_faces :: "mesh \<Rightarrow> nat" where
  "n_faces m = length (faces m)"

text \<open>
  \<^verbatim>\<open>
  if target_nfaces:
      target_reduction = (mesh.n_faces - target_nfaces) / mesh.n_faces
  \<close>
  \<open>target_nfaces\<close> is \<open>None\<close> or an integer, and the test is Python's truth value: \<open>None\<close>
  and \<open>0\<close> are both false.
\<close>

definition reduction :: "nat \<Rightarrow> real \<Rightarrow> int option \<Rightarrow> error + real" where
  "reduction current_faces target_reduction target_nfaces =
     (case target_nfaces of
        None \<Rightarrow> Inr target_reduction
      | Some t \<Rightarrow>
          if t = 0 then Inr target_reduction
          else if current_faces = 0 then Inl ZeroDivisionError
          else Inr ((real current_faces - real_of_int t) / real current_faces))"

text \<open>
  \<open>np.sum(V[F], axis=1) / 3\<close>: the mean of the three vertices of every face; an index
  outside \<open>V\<close> raises \<open>IndexError\<close>. The final \<open>np.squeeze\<close> only changes the shape of the
  array when there is exactly one face.
\<close>

definition face_centroid :: "(real \<times> real \<times> real) list \<Rightarrow> nat \<times> nat \<times> nat \<Rightarrow> real \<times> real \<times> real" where
  "face_centroid V f =
     (case f of (a, b, c) \<Rightarrow>
        ((fst (V ! a) + fst (V ! b) + fst (V ! c)) / 3,
         (fst (snd (V ! a)) + fst (snd (V ! b)) + fst (snd (V ! c))) / 3,
         (snd (snd (V ! a)) + snd (snd (V ! b)) + snd (snd (V ! c))) / 3))"

definition face_centroids ::
  "(real \<times> real \<times> real) list \<Rightarrow> (nat \<times> nat \<times> nat) list \<Rightarrow> error + (real \<times> real \<times> real) list" where
  "face_centroids V F =
     (if list_all (\<lambda>f. case f of (a, b, c) \<Rightarrow> a < length V \<and> b < length V \<and> c < length V) F
      then Inr (map (face_centroid V) F)
      else Inl IndexError)"

definition surf_from_vol ::
  "('v \<Rightarrow> real \<Rightarrow> 'f) \<Rightarrow> ('f \<Rightarrow> real \<Rightarrow> error + mesh) \<Rightarrow> (mesh \<Rightarrow> real \<Rightarrow> error + mesh)
   \<Rightarrow> 'v \<Rightarrow> real \<Rightarrow> real \<Rightarrow> int option
   \<Rightarrow> error + ((nat \<times> nat \<times> nat) list \<times> (real \<times> real \<times> real) list \<times> (real \<times> real \<times> real) list)" where
  "surf_from_vol gaussian marching_cubes decimate vol sigma target_reduction target_nfaces =
     (case marching_cubes (gaussian vol sigma) (1 / 2) of
        Inl e \<Rightarrow> Inl e
      | Inr raw \<Rightarrow>
     (case reduction (n_faces raw) target_reduction target_nfaces of
        Inl e \<Rightarrow> Inl e
      | Inr fraction \<Rightarrow>
     (case decimate raw fraction of
        Inl e \<Rightarrow> Inl e
      | Inr decimated \<Rightarrow>
     (case face_centroids (points decimated) (faces decimated) of
        Inl e \<Rightarrow> Inl e
      | Inr centroids \<Rightarrow> Inr (faces decimated, points decimated, centroids)))))"


section \<open>Properties of the radial coordinate mapper\<close>

subsection \<open>Round trip\<close>










lemma abs_le_radius: "\<bar>z\<bar> \<le> radius (x, y, z)"
proof -
  have "\<bar>z\<bar> = sqrt (square z)"
    by (simp add: square_def)
  also have "\<dots> \<le> sqrt (square x + square y + square z)"
    by (rule real_sqrt_le_mono) (simp add: square_def)
  finally show ?thesis by (simp add: radius_def)
qed

lemma radius_eq_0_iff: "radius (x, y, z) = 0 \<longleftrightarrow> x = 0 \<and> y = 0 \<and> z = 0"
proof -
  have nn: "0 \<le> square x" "0 \<le> square y" "0 \<le> square z"
    by (simp_all add: square_def)
  have "radius (x, y, z) = 0 \<longleftrightarrow> square x + square y + square z = 0"
    by (simp add: radius_def)
  also have "\<dots> \<longleftrightarrow> square x = 0 \<and> square y = 0 \<and> square z = 0"
    using nn by linarith
  finally show ?thesis by (simp add: square_def)
qed

lemma radius_nonneg: "0 \<le> radius p"
  by (cases p) (simp add: radius_def square_def)

lemma isnan_elevation_iff: "isnan (elevation p) \<longleftrightarrow> radius p = 0"
proof (cases p)
  case (fields x y z)
  show ?thesis
  proof (cases "radius p = 0")
    case True
    then have "z = 0" using fields by (simp add: radius_eq_0_iff)
    then show ?thesis using True fields by (simp add: elevation_def np_divide_def)
  next
    case False
    have "0 < radius p" using False radius_nonneg [of p] by linarith
    moreover have "\<bar>z\<bar> \<le> radius p" using fields abs_le_radius by simp
    ultimately have "- 1 \<le> z / radius p \<and> z / radius p \<le> 1"
      by (simp add: pos_le_divide_eq pos_divide_le_eq abs_le_iff)
    then show ?thesis using False fields by (simp add: elevation_def np_divide_def)
  qed
qed













subsection \<open>Unit sphere\<close>

lemma unit_sum_squares: "(sin el * cos az)\<^sup>2 + (sin el * sin az)\<^sup>2 + (cos el)\<^sup>2 = (1::real)"
proof -
  have "(sin el * cos az)\<^sup>2 + (sin el * sin az)\<^sup>2 = (sin el)\<^sup>2 * ((cos az)\<^sup>2 + (sin az)\<^sup>2)"
    by (simp only: power_mult_distrib distrib_left)
  also have "\<dots> = (sin el)\<^sup>2"
    by (simp only: cos_squared_eq) simp
  finally show ?thesis
    by simp
qed

lemma elementwise_broadcast:
  assumes "length xs = length ys \<or> length xs = 1 \<or> length ys = 1"
  shows "\<exists>zs. elementwise f xs ys = Inr zs \<and> length zs = broadcast_length xs ys
           \<and> (\<forall>i < broadcast_length xs ys. zs ! i = f (broadcast_nth xs i) (broadcast_nth ys i))"
proof (cases "length xs = length ys")
  case True
  then have "elementwise f xs ys = Inr (map2 f xs ys)"
    by (simp add: elementwise_def)
  moreover have "length (map2 f xs ys) = broadcast_length xs ys"
    using True by (simp add: broadcast_length_def)
  moreover have "\<forall>i < broadcast_length xs ys.
      map2 f xs ys ! i = f (broadcast_nth xs i) (broadcast_nth ys i)"
    using True by (auto simp: broadcast_length_def broadcast_nth_def)
  ultimately show ?thesis by blast
next
  case False
  show ?thesis
  proof (cases "length xs = 1")
    case True
    then have "elementwise f xs ys = Inr (map (f (hd xs)) ys)"
      using False by (simp add: elementwise_def)
    moreover have "length (map (f (hd xs)) ys) = broadcast_length xs ys"
      using True by (simp add: broadcast_length_def)
    moreover have "hd xs = xs ! 0"
      using True by (cases xs) simp_all
    then have "\<forall>i < broadcast_length xs ys.
        map (f (hd xs)) ys ! i = f (broadcast_nth xs i) (broadcast_nth ys i)"
      using True False by (auto simp: broadcast_length_def broadcast_nth_def)
    ultimately show ?thesis by blast
  next
    case xs: False
    then have ys: "length ys = 1" using assms False by blast
    then have "elementwise f xs ys = Inr (map (\<lambda>x. f x (hd ys)) xs)"
      using False xs by (simp add: elementwise_def)
    moreover have "length (map (\<lambda>x. f x (hd ys)) xs) = broadcast_length xs ys"
      using xs by (simp add: broadcast_length_def)
    moreover have "hd ys = ys ! 0"
      using ys by (cases ys) simp_all
    then have "\<forall>i < broadcast_length xs ys.
        map (\<lambda>x. f x (hd ys)) xs ! i = f (broadcast_nth xs i) (broadcast_nth ys i)"
      using xs ys by (auto simp: broadcast_length_def broadcast_nth_def)
    ultimately show ?thesis by blast
  qed
qed

lemma broadcast_nth_map:
  "i < broadcast_length xs ys \<Longrightarrow> length xs = length ys \<or> length xs = 1 \<or> length ys = 1
   \<Longrightarrow> broadcast_nth (map f xs) i = f (broadcast_nth xs i)"
  by (auto simp: broadcast_nth_def broadcast_length_def)

lemma s2c_args2_broadcast:
  assumes len: "length El = length Az \<or> length El = 1 \<or> length Az = 1"
  shows "\<exists>X Y Z. s2c np (Args2 El Az) = Inr (RTuple X Y Z)
           \<and> length X = broadcast_length El Az \<and> length Y = broadcast_length El Az
           \<and> length Z = length El
           \<and> (\<forall>i < broadcast_length El Az.
                 (X ! i, Y ! i, broadcast_nth Z i)
                 = s2c_row2 np (broadcast_nth El i, broadcast_nth Az i))"
proof -
  let ?s = "map (np_sin np) El" and ?c = "map (np_cos np) Az" and ?t = "map (np_sin np) Az"
  have l: "length ?s = length ?c \<or> length ?s = 1 \<or> length ?c = 1"
          "length ?s = length ?t \<or> length ?s = 1 \<or> length ?t = 1"
    using len by simp_all
  have bl: "broadcast_length ?s ?c = broadcast_length El Az" "broadcast_length ?s ?t = broadcast_length El Az"
    by (simp_all add: broadcast_length_def)
  obtain X where X: "elementwise (np_multiply np) ?s ?c = Inr X" "length X = broadcast_length El Az"
    "\<forall>i < broadcast_length El Az. X ! i = np_multiply np (broadcast_nth ?s i) (broadcast_nth ?c i)"
    using elementwise_broadcast [OF l(1), of "np_multiply np"] unfolding bl by blast
  obtain Y where Y: "elementwise (np_multiply np) ?s ?t = Inr Y" "length Y = broadcast_length El Az"
    "\<forall>i < broadcast_length El Az. Y ! i = np_multiply np (broadcast_nth ?s i) (broadcast_nth ?t i)"
    using elementwise_broadcast [OF l(2), of "np_multiply np"] unfolding bl by blast
  have res: "s2c np (Args2 El Az) = Inr (RTuple X Y (map (np_cos np) El))"
    using X(1) Y(1) by (simp add: s2c_def)
  have pts: "(X ! i, Y ! i, broadcast_nth (map (np_cos np) El) i)
             = s2c_row2 np (broadcast_nth El i, broadcast_nth Az i)"
    if i: "i < broadcast_length El Az" for i
  proof -
    have i': "i < broadcast_length Az El"
      using i len by (auto simp: broadcast_length_def split: if_splits)
    have len': "length Az = length El \<or> length Az = 1 \<or> length El = 1"
      using len by auto
    have "broadcast_nth (map (np_sin np) El) i = np_sin np (broadcast_nth El i)"
         "broadcast_nth (map (np_cos np) El) i = np_cos np (broadcast_nth El i)"
      by (rule broadcast_nth_map [OF i len])+
    moreover have "broadcast_nth (map (np_cos np) Az) i = np_cos np (broadcast_nth Az i)"
         "broadcast_nth (map (np_sin np) Az) i = np_sin np (broadcast_nth Az i)"
      by (rule broadcast_nth_map [OF i' len'])+
    ultimately show ?thesis
      using X(3) Y(3) i by (simp add: s2c_row2_def)
  qed
  show ?thesis using res X(2) Y(2) pts by auto
qed

text \<open>
  Claim C9, as amended. Called without a radius, \<open>s2c\<close> returns for every elevation and
  azimuth the point \<open>(sin(el) cos(az), sin(el) sin(az), cos(el))\<close> as numpy computes it:
  row by row for an \<open>N \<times> 2\<close> array, and entry by entry for two one-dimensional arrays
  that broadcast (equal lengths, or one of them a scalar, that is of length one). This
  is the point \<open>s2c\<close> returns for the radius \<open>1\<close>, multiplication by \<open>1\<close> changing nothing.
  When the operations are exact its Euclidean norm is exactly \<open>1\<close>. The text of \<open>s2c\<close> is
  the same in both files.
\<close>

theorem s2c_without_radius:
  "s2c np (Args1 (Cols2 A)) = Inr (RArray (Cols3 (map (s2c_row2 np) A)))
   \<and> (length El = length Az \<or> length El = 1 \<or> length Az = 1 \<longrightarrow>
        (\<exists>X Y Z. s2c np (Args2 El Az) = Inr (RTuple X Y Z)
           \<and> length X = broadcast_length El Az \<and> length Y = broadcast_length El Az
           \<and> length Z = length El
           \<and> (\<forall>i < broadcast_length El Az.
                 (X ! i, Y ! i, broadcast_nth Z i)
                 = s2c_row2 np (broadcast_nth El i, broadcast_nth Az i))))
   \<and> ((\<forall>x. np_multiply np one x = x) \<longrightarrow> s2c_row3 np (one, el, az) = s2c_row2 np (el, az))
   \<and> (case s2c_row2 exact (a, b) of (x, y, z) \<Rightarrow> sqrt (x\<^sup>2 + y\<^sup>2 + z\<^sup>2)) = 1"
proof (intro conjI impI)
  show "s2c np (Args1 (Cols2 A)) = Inr (RArray (Cols3 (map (s2c_row2 np) A)))"
    by (simp add: s2c_def)
next
  assume "length El = length Az \<or> length El = 1 \<or> length Az = 1"
  then show "\<exists>X Y Z. s2c np (Args2 El Az) = Inr (RTuple X Y Z)
           \<and> length X = broadcast_length El Az \<and> length Y = broadcast_length El Az
           \<and> length Z = length El
           \<and> (\<forall>i < broadcast_length El Az.
                 (X ! i, Y ! i, broadcast_nth Z i)
                 = s2c_row2 np (broadcast_nth El i, broadcast_nth Az i))"
    by (rule s2c_args2_broadcast)
next
  assume "\<forall>x. np_multiply np one x = x"
  then show "s2c_row3 np (one, el, az) = s2c_row2 np (el, az)"
    by (simp add: s2c_row3_def s2c_row2_def)
next
  have "s2c_row2 exact (a, b) = (sin a * cos b, sin a * sin b, cos a)"
    by (simp add: s2c_row2_def exact_def)
  then show "(case s2c_row2 exact (a, b) of (x, y, z) \<Rightarrow> sqrt (x\<^sup>2 + y\<^sup>2 + z\<^sup>2)) = 1"
    by (simp add: unit_sum_squares)
qed

text \<open>
  Exact arithmetic, a scalar elevation \<open>1\<close> with the azimuths \<open>2\<close> and \<open>3\<close>, and the radius
  \<open>1\<close>.
\<close>

theorem s2c_without_radius_witness:
  "length [1::real] = 1
   \<and> s2c exact (Args2 [1] [2, 3])
      = Inr (RTuple [sin 1 * cos 2, sin 1 * cos 3] [sin 1 * sin 2, sin 1 * sin 3] [cos 1])
   \<and> (\<forall>x::real. np_multiply exact 1 x = x)
   \<and> s2c_row3 exact (1, 1, 3) = s2c_row2 exact (1, 3)
   \<and> s2c_row2 exact (1, 3) = (sin 1 * cos 3, sin 1 * sin 3, cos 1)
   \<and> sqrt ((sin 1 * cos 3)\<^sup>2 + (sin 1 * sin 3)\<^sup>2 + (cos (1::real))\<^sup>2) = 1"
proof -
  have one: "\<forall>x::real. np_multiply exact 1 x = x"
    by (simp add: exact_def)
  have row: "s2c_row2 exact (1, 3) = (sin 1 * cos 3, sin 1 * sin 3, cos 1)"
    by (simp add: s2c_row2_def exact_def)
  have call: "s2c exact (Args2 [1] [2, 3])
      = Inr (RTuple [sin 1 * cos 2, sin 1 * cos 3] [sin 1 * sin 2, sin 1 * sin 3] [cos 1])"
    by (simp add: s2c_def exact_def elementwise_def)
  show ?thesis
    using s2c_without_radius [of exact "[]" "[1]" "[2, 3]" 1 1 3 1 3] one row call
    by simp
qed

text \<open>
  In float64 the norm is not exactly \<open>1\<close>: at the elevation \<open>0.14\<close> and the azimuth \<open>0\<close> the
  call returns \<open>(0.1395431146442365, 0, 0.9902159962126371)\<close>, and the squares of these
  two floats do not add up to \<open>1\<close>.
\<close>

theorem s2c_without_radius_float64_counterexample:
  "s2c float64_sample (Args1 (Cols2 [(1261007895663739 / 9007199254740992, 0)]))
     = Inr (RArray (Cols3 [(5027570552911215 / 36028797018963968, 0,
                            4459536391559537 / 4503599627370496)]))
   \<and> sqrt ((5027570552911215 / 36028797018963968)\<^sup>2 + 0\<^sup>2
            + (4459536391559537 / 4503599627370496)\<^sup>2) \<noteq> 1"
proof -
  have "((5027570552911215::real) / 36028797018963968)\<^sup>2 + 0\<^sup>2
            + (4459536391559537 / 4503599627370496)\<^sup>2 \<noteq> 1"
    by (simp add: power2_eq_square)
  then have "sqrt ((5027570552911215 / 36028797018963968)\<^sup>2 + 0\<^sup>2
            + (4459536391559537 / 4503599627370496)\<^sup>2) \<noteq> 1"
    by (simp only: real_sqrt_eq_1_iff not_False_eq_True)
  moreover have "s2c float64_sample (Args1 (Cols2 [(1261007895663739 / 9007199254740992, 0)]))
     = Inr (RArray (Cols3 [(5027570552911215 / 36028797018963968, 0,
                            4459536391559537 / 4503599627370496)]))"
    by (simp add: s2c_def s2c_row2_def float64_sample_def)
  ultimately show ?thesis by blast
qed

subsection \<open>Angle between two directions\<close>

text \<open>
  Claim C10. Every call of \<open>ang\<close> of \<open>virtue.py\<close> raises \<open>NameError\<close>, for the name \<open>sin\<close>
  that the module never binds; \<open>ang\<close> of \<open>lib/tractfinder/utils.py\<close> returns what
  \<open>np.arccos\<close> gives for \<open>sin(polA) sin(polB) cos(azA - azB) + cos(polA) cos(polB)\<close>, for
  all four angles and every \<open>dtype\<close> (a value that can be \<open>nan\<close> when rounding takes the
  argument above \<open>1\<close>); so the two functions agree on no input.
\<close>

theorem ang_virtue_NameError_ang_utils_arccos:
  "ang_virtue np azA polA azB polB = Inl (NameError ''sin'')
   \<and> is_NameError (NameError ''sin'')
   \<and> ang_utils np azA polA azB polB dtype
       = Inr (arccos_dtype np dtype
               (op_add np
                 (op_multiply np
                    (op_multiply np (sin_dtype np dtype polA) (sin_dtype np dtype polB))
                    (cos_dtype np dtype (op_subtract np azA azB)))
                 (op_multiply np (cos_dtype np dtype polA) (cos_dtype np dtype polB))))
   \<and> ang_virtue np azA polA azB polB \<noteq> ang_utils np azA polA azB polB dtype"
proof -
  have "''sin'' \<notin> set virtue_globals"
    by (simp add: virtue_globals_def)
  moreover have "''np'' \<in> set virtue_globals"
    by (simp add: virtue_globals_def)
  ultimately have v: "ang_virtue np azA polA azB polB = Inl (NameError ''sin'')"
    by (simp add: ang_virtue_def load_global_def)
  have "''np'' \<in> set utils_globals"
    by (simp add: utils_globals_def)
  then have u: "ang_utils np azA polA azB polB dtype
       = Inr (arccos_dtype np dtype (ang_argument np dtype azA polA azB polB))"
    by (simp add: ang_utils_def load_global_def)
  show ?thesis
    using v u by (simp add: ang_argument_def)
qed

subsection \<open>Points at the origin\<close>

lemma length_where_indices: "length (where_indices P xs) = length (filter P xs)"
proof -
  have "length (where_indices P xs) = card {i. i < length xs \<and> P (xs ! i)}"
    by (simp add: where_indices_def length_filter_conv_card cong: conj_cong)
  then show ?thesis by (simp add: length_filter_conv_card)
qed

lemma where_tuples_equal_same:
  "where_tuples_equal a a =
     (if length a = 1 then Inr True
      else if a = [] then Inr False
      else Inl (ValueError ''The truth value of an array with more than one element is ambiguous''))"
proof -
  have "map2 (=) a a = replicate (length a) True"
    by (induction a) simp_all
  then have e: "elementwise (=) a a = Inr (replicate (length a) True)"
    by (simp add: elementwise_def)
  show ?thesis
  proof (cases a)
    case Nil
    then show ?thesis by (simp add: where_tuples_equal_def elementwise_def)
  next
    case (Cons x xs)
    then show ?thesis unfolding where_tuples_equal_def e by simp
  qed
qed

lemma radius_zero_iff_origin: "radius p = 0 \<longleftrightarrow> p = (0, 0, 0)"
  by (cases p) (simp add: radius_eq_0_iff)

lemma nan_indices_are_zero_radius_indices:
  "where_indices isnan (map elevation rws) = where_indices (\<lambda>r. r = 0) (map radius rws)"
  unfolding where_indices_def by (rule filter_cong) (simp_all add: isnan_elevation_iff)

lemma count_nan_elevations:
  "length (filter isnan (map elevation rws)) = length (filter (\<lambda>p. p = (0, 0, 0)) rws)"
  by (simp add: filter_map o_def isnan_elevation_iff radius_zero_iff_origin)

text \<open>
  The batch form of \<open>utils.py\<close>, by the number \<open>n\<close> of rows at the origin: nothing to
  replace for \<open>n = 0\<close>; for \<open>n = 1\<close> the count is printed and the elevation replaced by
  \<open>0.1\<close>; for \<open>n > 1\<close> the count is printed and the assertion raises \<open>ValueError\<close>, since
  its comparison yields an array of \<open>n\<close> truth values.
\<close>

lemma c2s_utils_batch_cases:
  "c2s_utils_batch rws =
     (let n = length (filter (\<lambda>p. p = (0, 0, 0)) rws) in
      if n = 0 then
        ([], Inr (RArray (Cols3 (map (\<lambda>p. (Fin (radius p), elevation p, Fin (azimuth p))) rws))))
      else if n = 1 then
        ([1], Inr (RArray (Cols3
                (map (\<lambda>p. (Fin (radius p), substitute_nan (elevation p), Fin (azimuth p))) rws))))
      else
        ([n], Inl (ValueError ''The truth value of an array with more than one element is ambiguous'')))"
proof -
  let ?n = "length (filter (\<lambda>p. p = (0, 0, 0)) rws)"
  let ?a = "where_indices (\<lambda>r. r = 0) (map radius rws)"
  have ex: "list_ex isnan (map elevation rws) \<longleftrightarrow> ?n \<noteq> 0"
  proof -
    have "list_ex isnan ys \<longleftrightarrow> filter isnan ys \<noteq> []" for ys
      by (induction ys) simp_all
    then have "list_ex isnan (map elevation rws) \<longleftrightarrow> filter isnan (map elevation rws) \<noteq> []" .
    also have "\<dots> \<longleftrightarrow> length (filter isnan (map elevation rws)) \<noteq> 0"
      by (simp only: length_0_conv)
    finally show ?thesis by (simp only: count_nan_elevations)
  qed
  have len: "length ?a = ?n"
    using length_where_indices [of isnan "map elevation rws"]
    by (simp only: nan_indices_are_zero_radius_indices count_nan_elevations)
  have z3: "zip (map Fin (map radius rws)) (zip (map f (map elevation rws)) (map Fin (map azimuth rws)))
            = map (\<lambda>p. (Fin (radius p), f (elevation p), Fin (azimuth p))) rws" for f
    by (induction rws) simp_all
  have z3': "zip (map Fin (map radius rws)) (zip (map elevation rws) (map Fin (map azimuth rws)))
            = map (\<lambda>p. (Fin (radius p), elevation p, Fin (azimuth p))) rws"
    by (induction rws) simp_all
  show ?thesis
  proof (cases "?n = 0")
    case True
    then show ?thesis
      unfolding c2s_utils_batch_def Let_def using ex z3' by simp
  next
    case False
    have nonempty: "?a \<noteq> []" using False len by auto
    show ?thesis
    proof (cases "?n = 1")
      case True
      then show ?thesis
        unfolding c2s_utils_batch_def Let_def nan_indices_are_zero_radius_indices
          where_tuples_equal_same count_nan_elevations
        using ex len z3 [of substitute_nan] by simp
    next
      case False
      then show ?thesis
        unfolding c2s_utils_batch_def Let_def nan_indices_are_zero_radius_indices
          where_tuples_equal_same count_nan_elevations
        using ex len nonempty \<open>?n \<noteq> 0\<close> by simp
    qed
  qed
qed

lemma c2s_utils_batch_one_origin:
  "c2s_utils (Args1 (Cols3 [(3, 4, 0), (0, 0, 0)]))
   = ([1], Inr (RArray (Cols3 [(Fin 5, Fin (pi / 2), Fin (arctan (4 / 3))), (Fin 0, Fin (1 / 10), Fin 0)])))"
proof -
  have "sqrt (25::real) = 5"
    using real_sqrt_abs [of 5] by simp
  then show ?thesis
    by (simp add: c2s_utils_def c2s_utils_batch_cases radius_def elevation_def azimuth_def
      square_def np_divide_def np_arctan2_def substitute_nan_def)
qed

lemma c2s_utils_batch_two_origins:
  "c2s_utils (Args1 (Cols3 [(0, 0, 0), (0, 0, 0)]))
   = ([2], Inl (ValueError ''The truth value of an array with more than one element is ambiguous''))"
  by (simp add: c2s_utils_def c2s_utils_batch_cases)

text \<open>
  Claim C3. The claim asks for the sentinel elevation and a recorded count in every call
  form. At the origin the componentwise form of \<open>c2s\<close> in \<open>utils.py\<close> returns the
  elevation \<open>nan\<close> and prints nothing, and \<open>c2s\<close> of \<open>virtue.py\<close> returns \<open>nan\<close> in both of its
  forms: only the batch form of \<open>utils.py\<close> replaces it.
\<close>

theorem c2s_origin_elevation_nan:
  "c2s_utils (Args3 [0] [0] [0]) = ([], Inr (RTuple [Fin 0] [NaN] [Fin 0]))
   \<and> c2s_virtue (Args3 [0] [0] [0]) = Inr (RTuple [Fin 0] [NaN] [Fin 0])
   \<and> c2s_virtue (Args1 (Cols3 [(0, 0, 0)])) = Inr (RArray (Cols3 [(Fin 0, NaN, Fin 0)]))"
  by (simp add: c2s_utils_def c2s_virtue_def c2s_xyz_def elementwise_def square_def np_divide_def
      np_arctan2_def radius_def elevation_def azimuth_def)

section \<open>Properties of the mask simplifier\<close>

lemma set_indices:
  "set (indices s) = {p. fst p < fst s \<and> fst (snd p) < fst (snd s) \<and> snd (snd p) < snd (snd s)}"
  by (cases s) (auto simp: indices_def)


lemma le_fold_max: "x \<in> set xs \<Longrightarrow> x \<le> fold max xs (a::nat)"
proof -
  assume "x \<in> set xs"
  then have "x \<le> Max (set (a # xs))" by (intro Max_ge) simp_all
  then show ?thesis by (simp only: Max.set_eq_fold)
qed

lemma le_max_label: "p \<in> set (indices (shape ll)) \<Longrightarrow> data ll p \<le> max_label ll"
  unfolding max_label_def by (rule le_fold_max) simp

lemma regionprops_empty_iff:
  "regionprops ll = [] \<longleftrightarrow> (\<forall>p \<in> set (indices (shape ll)). data ll p = 0)"
proof
  assume e: "regionprops ll = []"
  show "\<forall>p \<in> set (indices (shape ll)). data ll p = 0"
  proof (rule ballI, rule ccontr)
    fix p assume p: "p \<in> set (indices (shape ll))" and nz: "data ll p \<noteq> 0"
    have "p \<in> set (coords_of ll (data ll p))"
      using p by (simp add: coords_of_def)
    then have "coords_of ll (data ll p) \<noteq> []" by auto
    moreover have "1 \<le> data ll p \<and> data ll p < Suc (max_label ll)"
      using nz le_max_label [OF p] by simp
    then have "data ll p \<in> set [1..<Suc (max_label ll)]"
      by (simp only: set_upt atLeastLessThan_iff)
    ultimately have "filter (\<lambda>l. coords_of ll l \<noteq> []) [1..<Suc (max_label ll)] \<noteq> []"
      by (auto simp: filter_empty_conv simp del: upt_Suc)
    then show False using e by (simp add: regionprops_def del: upt_Suc)
  qed
next
  assume z: "\<forall>p \<in> set (indices (shape ll)). data ll p = 0"
  have "coords_of ll l = []" if "1 \<le> l" for l
    using z that by (auto simp: coords_of_def filter_empty_conv)
  then have "filter (\<lambda>l. coords_of ll l \<noteq> []) [1..<Suc (max_label ll)] = []"
    by (auto simp: filter_empty_conv simp del: upt_Suc)
  then show "regionprops ll = []" by (simp add: regionprops_def del: upt_Suc)
qed

lemma regionprops_empty_mask:
  assumes "shape (label vol) = shape vol"
    and "\<forall>p \<in> set (indices (shape vol)). (data (label vol) p = 0) = (\<not> data vol p)"
  shows "regionprops (label vol) = [] \<longleftrightarrow> foreground vol = []"
  using assms by (simp add: regionprops_empty_iff foreground_def filter_empty_conv)

lemma argmax_from_less: "best < i \<Longrightarrow> argmax_from best v i xs < i + length xs"
proof (induction xs arbitrary: best v i)
  case Nil
  then show ?case by simp
next
  case (Cons a xs)
  have "argmax_from i a (Suc i) xs < Suc i + length xs"
    by (rule Cons.IH) simp
  moreover have "argmax_from best v (Suc i) xs < Suc i + length xs"
    by (rule Cons.IH) (use Cons.prems in simp)
  ultimately show ?case by simp
qed

lemma argmax_Inr: "xs \<noteq> [] \<Longrightarrow> \<exists>i < length xs. argmax xs = Inr i"
proof (cases xs)
  case Nil
  then show "xs \<noteq> [] \<Longrightarrow> ?thesis" by simp
next
  case (Cons x ys)
  have "argmax_from 0 x 1 ys < 1 + length ys"
    by (rule argmax_from_less) simp
  then show ?thesis using Cons by simp
qed

text \<open>
  Claim C5, as amended. With both flags false \<open>simplify_vol\<close> raises
  \<open>ValueError('At least one of convex_hull and largest_object options must be true')\<close>,
  whatever the mask. With at least one flag true and a mask without foreground voxels,
  which \<open>measure.label\<close> labels \<open>0\<close> everywhere, it raises the \<open>ValueError\<close> of \<open>np.argmax\<close>
  on an empty sequence. Neither case produces a mask or a centroid.
\<close>

theorem simplify_vol_error_cases:
  "simplify_vol label convex_hull_image vol False False
     = Inl (ValueError ''At least one of convex_hull and largest_object options must be true'')
   \<and> ((convex_hull \<or> largest_object) \<and> foreground vol = []
        \<and> shape (label vol) = shape vol
        \<and> (\<forall>p \<in> set (indices (shape vol)). (data (label vol) p = 0) = (\<not> data vol p))
      \<longrightarrow> simplify_vol label convex_hull_image vol convex_hull largest_object
            = Inl (ValueError ''attempt to get argmax of an empty sequence''))"
proof (intro conjI impI)
  show "simplify_vol label convex_hull_image vol False False
     = Inl (ValueError ''At least one of convex_hull and largest_object options must be true'')"
    by (simp add: simplify_vol_def)
next
  assume h: "(convex_hull \<or> largest_object) \<and> foreground vol = []
        \<and> shape (label vol) = shape vol
        \<and> (\<forall>p \<in> set (indices (shape vol)). (data (label vol) p = 0) = (\<not> data vol p))"
  then have "regionprops (label vol) = []"
    using regionprops_empty_mask [of label vol] by blast
  then show "simplify_vol label convex_hull_image vol convex_hull largest_object
            = Inl (ValueError ''attempt to get argmax of an empty sequence'')"
    using h by (simp add: simplify_vol_def Let_def)
qed

text \<open>
  The empty \<open>2 \<times> 2 \<times> 2\<close> mask with both flags true; the labelling gives label \<open>1\<close> to
  every foreground voxel, which is what \<open>measure.label\<close> does on a mask with at most one
  component.
\<close>

theorem simplify_vol_error_cases_witness:
  "foreground \<lparr>shape = (2, 2, 2), data = (\<lambda>p. False)\<rparr> = []
   \<and> simplify_vol (\<lambda>v. \<lparr>shape = shape v, data = (\<lambda>p. if data v p then 1 else 0)\<rparr>) (\<lambda>v. v)
        \<lparr>shape = (2, 2, 2), data = (\<lambda>p. False)\<rparr> True True
      = Inl (ValueError ''attempt to get argmax of an empty sequence'')"
  using simplify_vol_error_cases
    [of "\<lambda>v. \<lparr>shape = shape v, data = (\<lambda>p. if data v p then 1 else 0)\<rparr>" "\<lambda>v. v"
        "\<lparr>shape = (2, 2, 2), data = (\<lambda>p. False)\<rparr>" True True]
  by (simp add: foreground_def)

text \<open>
  An empty mask with both flags false meets both conditions of the claim, which asks
  for two different errors; the flags are tested first, and the error raised is the one
  about the flags.
\<close>

theorem simplify_vol_empty_mask_no_flags_counterexample:
  "foreground \<lparr>shape = (2, 2, 2), data = (\<lambda>p. False)\<rparr> = []
   \<and> simplify_vol (\<lambda>v. \<lparr>shape = shape v, data = (\<lambda>p. if data v p then 1 else 0)\<rparr>) (\<lambda>v. v)
        \<lparr>shape = (2, 2, 2), data = (\<lambda>p. False)\<rparr> False False
      = Inl (ValueError ''At least one of convex_hull and largest_object options must be true'')
   \<and> ValueError ''At least one of convex_hull and largest_object options must be true''
      \<noteq> ValueError ''attempt to get argmax of an empty sequence''"
  by (simp add: foreground_def simplify_vol_def)

text \<open>
  Claim C8, as amended. With \<open>convex_hull=True\<close> and \<open>largest_object=False\<close>,
  \<open>simplify_vol\<close> never returns: when the labelling finds a region it raises
  \<open>UnboundLocalError\<close> (a \<open>NameError\<close>) for \<open>out\<close>, and when it finds none it raises the
  \<open>ValueError\<close> of \<open>np.argmax\<close> before \<open>out\<close> is read. With a labelling that gives \<open>0\<close> to
  the background only, the first case is that of a mask with a foreground voxel. A call
  that returns has \<open>largest_object=True\<close>.
\<close>

theorem simplify_vol_hull_only_never_returns:
  "(regionprops (label vol) \<noteq> [] \<longrightarrow>
      simplify_vol label convex_hull_image vol True False = Inl (UnboundLocalError ''out''))
   \<and> (regionprops (label vol) = [] \<longrightarrow>
      simplify_vol label convex_hull_image vol True False
        = Inl (ValueError ''attempt to get argmax of an empty sequence''))
   \<and> (shape (label vol) = shape vol
        \<and> (\<forall>p \<in> set (indices (shape vol)). (data (label vol) p = 0) = (\<not> data vol p))
      \<longrightarrow> (regionprops (label vol) \<noteq> [] \<longleftrightarrow> foreground vol \<noteq> []))
   \<and> (\<forall>convex_hull largest_object result.
        simplify_vol label convex_hull_image vol convex_hull largest_object = Inr result
        \<longrightarrow> largest_object)"
proof (intro conjI impI allI)
  assume ne: "regionprops (label vol) \<noteq> []"
  then obtain i where "argmax (map area (regionprops (label vol))) = Inr i"
    using argmax_Inr [of "map area (regionprops (label vol))"] by auto
  then show "simplify_vol label convex_hull_image vol True False = Inl (UnboundLocalError ''out'')"
    by (simp add: simplify_vol_def Let_def)
next
  assume "regionprops (label vol) = []"
  then show "simplify_vol label convex_hull_image vol True False
        = Inl (ValueError ''attempt to get argmax of an empty sequence'')"
    by (simp add: simplify_vol_def Let_def)
next
  assume "shape (label vol) = shape vol
        \<and> (\<forall>p \<in> set (indices (shape vol)). (data (label vol) p = 0) = (\<not> data vol p))"
  then show "regionprops (label vol) \<noteq> [] \<longleftrightarrow> foreground vol \<noteq> []"
    using regionprops_empty_mask [of label vol] by blast
next
  fix convex_hull largest_object result
  assume "simplify_vol label convex_hull_image vol convex_hull largest_object = Inr result"
  then show largest_object
    by (cases largest_object)
       (auto simp: simplify_vol_def Let_def split: if_splits sum.splits)
qed

text \<open>A full \<open>2 \<times> 2 \<times> 2\<close> cube: one region, and \<open>out\<close> is read while unbound.\<close>

theorem simplify_vol_hull_only_never_returns_witness:
  "regionprops \<lparr>shape = (2, 2, 2), data = (\<lambda>p. if True then 1 else 0)\<rparr> \<noteq> []
   \<and> simplify_vol (\<lambda>v. \<lparr>shape = shape v, data = (\<lambda>p. if data v p then 1 else 0)\<rparr>) (\<lambda>v. v)
        \<lparr>shape = (2, 2, 2), data = (\<lambda>p. True)\<rparr> True False
      = Inl (UnboundLocalError ''out'')
   \<and> is_NameError (UnboundLocalError ''out'')"
proof -
  have "(0, 0, 0) \<in> set (indices (2, 2, 2))"
    by (simp add: set_indices)
  then have ne: "regionprops \<lparr>shape = (2, 2, 2), data = (\<lambda>p. if True then 1 else 0)\<rparr> \<noteq> []"
    by (auto simp: regionprops_empty_iff)
  show ?thesis
    using ne simplify_vol_hull_only_never_returns
      [of "\<lambda>v. \<lparr>shape = shape v, data = (\<lambda>p. if data v p then 1 else 0)\<rparr>"
          "\<lparr>shape = (2, 2, 2), data = (\<lambda>p. True)\<rparr>" "\<lambda>v. v"]
    by simp
qed

text \<open>
  On an empty mask the same call raises \<open>ValueError\<close>, which is not a \<open>NameError\<close>: the
  list of regions is empty and \<open>np.argmax\<close> fails first.
\<close>

theorem simplify_vol_hull_only_empty_mask_counterexample:
  "simplify_vol (\<lambda>v. \<lparr>shape = shape v, data = (\<lambda>p. if data v p then 1 else 0)\<rparr>) (\<lambda>v. v)
        \<lparr>shape = (2, 2, 2), data = (\<lambda>p. False)\<rparr> True False
      = Inl (ValueError ''attempt to get argmax of an empty sequence'')
   \<and> \<not> is_NameError (ValueError ''attempt to get argmax of an empty sequence'')"
proof -
  have "regionprops \<lparr>shape = (2, 2, 2), data = (\<lambda>p. if False then 1 else 0)\<rparr> = []"
    by (simp add: regionprops_empty_iff)
  then show ?thesis by (simp add: simplify_vol_def)
qed

subsection \<open>Two components\<close>















section \<open>Properties of the surface extractor\<close>

lemma reduction_target_given:
  "t \<noteq> 0 \<Longrightarrow> n \<noteq> 0 \<Longrightarrow> reduction n target_reduction (Some t) = Inr ((real n - real_of_int t) / real n)"
  by (simp add: reduction_def)

lemma reduction_no_target: "reduction n target_reduction None = Inr target_reduction"
  by (simp add: reduction_def)

text \<open>
  Claim C6. The claim asks that a given target face count decides the fraction. A
  target of \<open>0\<close> is given and is not used: the test \<open>if target_nfaces:\<close> is false for it,
  the supplied \<open>target_reduction\<close> is applied, and the call behaves as if no target had
  been given. With \<open>10\<close> faces and the default \<open>0.8\<close> the fraction is \<open>0.8\<close>, not
  \<open>(10 - 0) / 10\<close>.
\<close>

theorem surf_from_vol_target_zero_ignored:
  "reduction n target_reduction (Some 0) = Inr target_reduction
   \<and> surf_from_vol gaussian marching_cubes decimate vol sigma target_reduction (Some 0)
     = surf_from_vol gaussian marching_cubes decimate vol sigma target_reduction None
   \<and> reduction 10 (8 / 10) (Some 0) = Inr (8 / 10)
   \<and> (real 10 - real_of_int 0) / real 10 \<noteq> 8 / 10"
proof -
  have same: "reduction k target_reduction (Some 0) = reduction k target_reduction None" for k
    by (simp add: reduction_def)
  have "surf_from_vol gaussian marching_cubes decimate vol sigma target_reduction (Some 0)
     = surf_from_vol gaussian marching_cubes decimate vol sigma target_reduction None"
    unfolding surf_from_vol_def same ..
  then show ?thesis by (simp add: reduction_def)
qed

text \<open>
  Claim C7, as amended. \<open>surf_from_vol\<close> has no check of its own. When
  \<open>measure.marching_cubes\<close> raises, as it does on an empty mask that has no \<open>0.5\<close> level,
  the call fails with that exception; when \<open>decimate\<close> raises, with that one. When the
  decimated mesh has no face the call returns, with an empty array of faces and an
  empty array of centroids.
\<close>

theorem surf_from_vol_failures:
  "(marching_cubes (gaussian vol sigma) (1 / 2) = Inl e \<longrightarrow>
      surf_from_vol gaussian marching_cubes decimate vol sigma target_reduction target_nfaces = Inl e)
   \<and> (marching_cubes (gaussian vol sigma) (1 / 2) = Inr raw
        \<and> reduction (n_faces raw) target_reduction target_nfaces = Inr fraction
        \<and> decimate raw fraction = Inl e \<longrightarrow>
      surf_from_vol gaussian marching_cubes decimate vol sigma target_reduction target_nfaces = Inl e)
   \<and> (marching_cubes (gaussian vol sigma) (1 / 2) = Inr raw
        \<and> reduction (n_faces raw) target_reduction target_nfaces = Inr fraction
        \<and> decimate raw fraction = Inr decimated \<and> faces decimated = [] \<longrightarrow>
      surf_from_vol gaussian marching_cubes decimate vol sigma target_reduction target_nfaces
        = Inr ([], points decimated, []))"
proof (intro conjI impI)
  assume "marching_cubes (gaussian vol sigma) (1 / 2) = Inl e"
  then show "surf_from_vol gaussian marching_cubes decimate vol sigma target_reduction target_nfaces
      = Inl e"
    by (simp add: surf_from_vol_def)
next
  assume "marching_cubes (gaussian vol sigma) (1 / 2) = Inr raw
        \<and> reduction (n_faces raw) target_reduction target_nfaces = Inr fraction
        \<and> decimate raw fraction = Inl e"
  then show "surf_from_vol gaussian marching_cubes decimate vol sigma target_reduction target_nfaces
      = Inl e"
    by (simp add: surf_from_vol_def)
next
  assume h: "marching_cubes (gaussian vol sigma) (1 / 2) = Inr raw
        \<and> reduction (n_faces raw) target_reduction target_nfaces = Inr fraction
        \<and> decimate raw fraction = Inr decimated \<and> faces decimated = []"
  have "face_centroids (points decimated) [] = Inr []"
    by (simp add: face_centroids_def)
  then show "surf_from_vol gaussian marching_cubes decimate vol sigma target_reduction target_nfaces
      = Inr ([], points decimated, [])"
    using h by (simp add: surf_from_vol_def)
qed

text \<open>
  Stand-ins for the library: the smoothing keeps the volume (a boolean, whether it is
  non-empty), the isosurface of a non-empty one is a tetrahedron and an empty one has
  none, and the decimation rejects a negative fraction and removes every face when
  asked to remove all of them. The three calls: an empty mask; a target of \<open>8\<close> faces
  for the \<open>4\<close> of the tetrahedron, a fraction of \<open>-1\<close>; a fraction above \<open>1\<close>.
\<close>

theorem surf_from_vol_failures_witness:
  "surf_from_vol (\<lambda>v s. v)
      (\<lambda>f level. if f then Inr \<lparr>points = [(0, 0, 0), (1, 0, 0), (0, 1, 0), (0, 0, 1)],
                                  faces = [(0, 1, 2), (0, 1, 3), (0, 2, 3), (1, 2, 3)]\<rparr>
                   else Inl (ValueError ''Surface level must be within volume data range.''))
      (\<lambda>m r. if r < 0 then Inl (ValueError ''target_reduction'')
              else Inr (if 1 \<le> r then \<lparr>points = [], faces = []\<rparr> else m))
      False 1 (8 / 10) None
    = Inl (ValueError ''Surface level must be within volume data range.'')
   \<and> surf_from_vol (\<lambda>v s. v)
      (\<lambda>f level. if f then Inr \<lparr>points = [(0, 0, 0), (1, 0, 0), (0, 1, 0), (0, 0, 1)],
                                  faces = [(0, 1, 2), (0, 1, 3), (0, 2, 3), (1, 2, 3)]\<rparr>
                   else Inl (ValueError ''Surface level must be within volume data range.''))
      (\<lambda>m r. if r < 0 then Inl (ValueError ''target_reduction'')
              else Inr (if 1 \<le> r then \<lparr>points = [], faces = []\<rparr> else m))
      True 1 (8 / 10) (Some 8)
    = Inl (ValueError ''target_reduction'')
   \<and> surf_from_vol (\<lambda>v s. v)
      (\<lambda>f level. if f then Inr \<lparr>points = [(0, 0, 0), (1, 0, 0), (0, 1, 0), (0, 0, 1)],
                                  faces = [(0, 1, 2), (0, 1, 3), (0, 2, 3), (1, 2, 3)]\<rparr>
                   else Inl (ValueError ''Surface level must be within volume data range.''))
      (\<lambda>m r. if r < 0 then Inl (ValueError ''target_reduction'')
              else Inr (if 1 \<le> r then \<lparr>points = [], faces = []\<rparr> else m))
      True 1 (3 / 2) None
    = Inr ([], [], [])"
proof -
  let ?mc = "\<lambda>f (level::real). if f then Inr \<lparr>points = [(0, 0, 0), (1, 0, 0), (0, 1, 0), (0, 0, 1)],
                                  faces = [(0, 1, 2), (0, 1, 3), (0, 2, 3), (1, 2, 3)]\<rparr>
                   else Inl (ValueError ''Surface level must be within volume data range.'')"
  let ?dec = "\<lambda>m (r::real). if r < 0 then Inl (ValueError ''target_reduction'')
              else Inr (if 1 \<le> r then \<lparr>points = [], faces = []\<rparr> else m)"
  let ?tetra = "\<lparr>points = [(0, 0, 0), (1, 0, 0), (0, 1, 0), (0, 0, 1)],
                 faces = [(0, 1, 2), (0, 1, 3), (0, 2, 3), (1, 2, 3)]\<rparr>"
  have a: "surf_from_vol (\<lambda>v s. v) ?mc ?dec False 1 (8 / 10) None
           = Inl (ValueError ''Surface level must be within volume data range.'')"
    using surf_from_vol_failures [of ?mc "\<lambda>v s. v" False 1
        "ValueError ''Surface level must be within volume data range.''" ?dec "8 / 10" None]
    by simp
  have b: "surf_from_vol (\<lambda>v s. v) ?mc ?dec True 1 (8 / 10) (Some 8)
           = Inl (ValueError ''target_reduction'')"
    using surf_from_vol_failures [of ?mc "\<lambda>v s. v" True 1 "ValueError ''target_reduction''" ?dec
        "8 / 10" "Some 8" ?tetra "- 1"]
    by (simp add: reduction_def n_faces_def)
  have c: "surf_from_vol (\<lambda>v s. v) ?mc ?dec True 1 (3 / 2) None = Inr ([], [], [])"
    using surf_from_vol_failures [of ?mc "\<lambda>v s. v" True 1 _ ?dec "3 / 2" None ?tetra "3 / 2"
        "\<lparr>points = [], faces = []\<rparr>"]
    by (simp add: reduction_def)
  show ?thesis using a b c by (intro conjI)
qed

text \<open>
  With the same stand-ins, a reduction of \<open>1\<close> on a non-empty mask leaves no face, and
  the call returns three empty arrays instead of failing.
\<close>

theorem surf_from_vol_zero_faces_counterexample:
  "surf_from_vol (\<lambda>v s. v) (\<lambda>f level. if f then Inr \<lparr>points = [(0, 0, 0), (1, 0, 0), (0, 1, 0), (0, 0, 1)],
        faces = [(0, 1, 2), (0, 1, 3), (0, 2, 3), (1, 2, 3)]\<rparr>
        else Inl (ValueError ''Surface level must be within volume data range.''))
      (\<lambda>m r. if r < 0 then Inl (ValueError ''target_reduction'')
              else Inr (if 1 \<le> r then \<lparr>points = [], faces = []\<rparr> else m)) True 1 1 None
    = Inr ([], [], [])"
  by (simp add: surf_from_vol_def reduction_def face_centroids_def)

end
